theory Spec2Isabelle
  imports Main "HOL-Library.Word"
begin

section \<open>JavaScript values\<close>

text \<open>
  The wrappers are TypeScript classes, but every check they make is a run-time check
  (\<^verbatim>\<open>typeof\<close>, a comparison with \<^verbatim>\<open>undefined\<close>, a regular expression), so a
  setter can be handed any JavaScript value. A string is a sequence of 16-bit code units.
  Numbers are restricted to integers, arrays and one plain object stand for the object
  values; functions, symbols and bigints are left out.
\<close>

type_synonym cu = "16 word"
type_synonym jsstring = "cu list"

definition cu :: "char \<Rightarrow> cu" where
  "cu c = of_nat (of_char c)"

definition str :: "string \<Rightarrow> jsstring" where
  "str s = map cu s"

datatype jsval =
    JUndefined
  | JNull
  | JBool bool
  | JNum int
  | JStr jsstring
  | JArr "jsval list"
  | JObj

fun typeof :: "jsval \<Rightarrow> string" where
  "typeof JUndefined = ''undefined''"
| "typeof JNull = ''object''"
| "typeof (JBool b) = ''boolean''"
| "typeof (JNum n) = ''number''"
| "typeof (JStr s) = ''string''"
| "typeof (JArr xs) = ''object''"
| "typeof JObj = ''object''"

text \<open>
  The decimal digits of a natural number, and the string of an integer as
  \<^verbatim>\<open>Number.prototype.toString\<close> prints it (integers below \<open>10^21\<close> in magnitude are
  printed in plain decimal notation).
\<close>

fun digits :: "nat \<Rightarrow> jsstring" where
  "digits n = (if n < 10 then [cu CHR ''0'' + of_nat n]
               else digits (n div 10) @ [cu CHR ''0'' + of_nat (n mod 10)])"

declare digits.simps [simp del]

definition NumberToString :: "int \<Rightarrow> jsstring" where
  "NumberToString n = (if n < 0 then cu CHR ''-'' # digits (nat (- n)) else digits (nat n))"

fun join :: "jsstring \<Rightarrow> jsstring list \<Rightarrow> jsstring" where
  "join sep [] = []"
| "join sep [s] = s"
| "join sep (s # t # ss) = s @ sep @ join sep (t # ss)"

text \<open>
  The abstract operation ToString. An array is converted by \<^verbatim>\<open>Array.prototype.join\<close> with
  a comma, where \<^verbatim>\<open>undefined\<close> and \<^verbatim>\<open>null\<close> elements give the empty string; a plain
  object gives \<^verbatim>\<open>[object Object]\<close>.
\<close>

fun ToString :: "jsval \<Rightarrow> jsstring"
  and elements :: "jsval list \<Rightarrow> jsstring list" where
  "ToString JUndefined = str ''undefined''"
| "ToString JNull = str ''null''"
| "ToString (JBool b) = (if b then str ''true'' else str ''false'')"
| "ToString (JNum n) = NumberToString n"
| "ToString (JStr s) = s"
| "ToString (JArr xs) = join (str '','') (elements xs)"
| "ToString JObj = str ''[object Object]''"
| "elements [] = []"
| "elements (x # xs) =
     (if x = JUndefined \<or> x = JNull then [] else ToString x) # elements xs"

section \<open>Regular expressions\<close>

text \<open>
  The fragment of regular expressions the source uses: a sequence of items, each the
  assertion \<^verbatim>\<open>^\<close>, the assertion \<^verbatim>\<open>$\<close>, a literal code unit or a class of ranges. A
  quantifier \<^verbatim>\<open>{n}\<close> is written as \<open>n\<close> copies of its item. Without the \<^verbatim>\<open>m\<close> flag
  \<^verbatim>\<open>^\<close> holds only at the start of the input and \<^verbatim>\<open>$\<close> only at its end.
\<close>

datatype item = Bol | Eol | Chr cu | Cls "(cu \<times> cu) list"

fun in_class :: "(cu \<times> cu) list \<Rightarrow> cu \<Rightarrow> bool" where
  "in_class [] c = False"
| "in_class ((lo, hi) # rs) c = ((lo \<le> c \<and> c \<le> hi) \<or> in_class rs c)"

text \<open>
  \<open>match_here p b s\<close>: the pattern \<open>p\<close> matches a prefix of the rest \<open>s\<close> of the input;
  \<open>b\<close> tells whether \<open>s\<close> is the whole input.
\<close>

fun match_here :: "item list \<Rightarrow> bool \<Rightarrow> jsstring \<Rightarrow> bool" where
  "match_here [] b s = True"
| "match_here (Bol # p) b s = (b \<and> match_here p b s)"
| "match_here (Eol # p) b s = (s = [] \<and> match_here p b s)"
| "match_here (Chr c # p) b [] = False"
| "match_here (Chr c # p) b (x # xs) = (x = c \<and> match_here p False xs)"
| "match_here (Cls r # p) b [] = False"
| "match_here (Cls r # p) b (x # xs) = (in_class r x \<and> match_here p False xs)"

text \<open>The search for a match tries every start index, from 0 to the length of the input.\<close>

fun search :: "item list \<Rightarrow> bool \<Rightarrow> jsstring \<Rightarrow> bool" where
  "search p b [] = match_here p b []"
| "search p b (x # xs) = (match_here p b (x # xs) \<or> search p False xs)"

text \<open>\<^verbatim>\<open>RegExp.prototype.test\<close> converts its argument with ToString and searches it.\<close>

definition test :: "item list \<Rightarrow> jsval \<Rightarrow> bool" where
  "test p v = search p True (ToString v)"

text \<open>The literal \<^verbatim>\<open>/^#[0-9A-Fa-f]{6}$/\<close> of \<^verbatim>\<open>MainButton.ts\<close> and \<^verbatim>\<open>WebApp.ts\<close>.\<close>

definition hex_ranges :: "(cu \<times> cu) list" where
  "hex_ranges =
     [(cu CHR ''0'', cu CHR ''9''), (cu CHR ''A'', cu CHR ''F''), (cu CHR ''a'', cu CHR ''f'')]"

definition hex_color_regex :: "item list" where
  "hex_color_regex = [Bol, Chr (cu CHR ''#'')] @ replicate 6 (Cls hex_ranges) @ [Eol]"

definition MainButton_isValidHexColor :: "jsval \<Rightarrow> bool" where
  "MainButton_isValidHexColor v = test hex_color_regex v"

definition WebApp_isValidHexColor :: "jsval \<Rightarrow> bool" where
  "WebApp_isValidHexColor v = test hex_color_regex v"

text \<open>
  The format in the words of the specification: exactly \<^verbatim>\<open>#\<close> followed by 6 characters,
  each one of the 22 hexadecimal digits.
\<close>

definition spec_hex_digit :: "cu \<Rightarrow> bool" where
  "spec_hex_digit c = (c \<in> set (str ''0123456789ABCDEFabcdef''))"

definition spec_hex_color :: "jsstring \<Rightarrow> bool" where
  "spec_hex_color s =
     (case s of [] \<Rightarrow> False
      | c # t \<Rightarrow> c = cu CHR ''#'' \<and> length t = 6 \<and> list_all spec_hex_digit t)"

section \<open>Errors and host objects\<close>

text \<open>
  \<open>TypeError\<close> and \<open>ValueError\<close> are the two classes of \<^verbatim>\<open>errors/index.ts\<close>; \<open>Error\<close>
  is the built-in class the constructors throw. A method returns the error it threw, if
  any, together with the state it left behind.
\<close>

datatype error = Error string | TypeError string | ValueError string

type_synonym 's outcome = "error option \<times> 's"

text \<open>
  The host objects are plain objects: assigning a property stores the value. Only the
  properties that the modelled methods read or write are kept.
\<close>

record BackButton_host =
  bb_isVisible :: jsval

record MainButton_host =
  mb_text :: jsval
  mb_color :: jsval
  mb_textColor :: jsval
  mb_isVisible :: jsval
  mb_isActive :: jsval
  mb_isProgressVisible :: jsval

record WebApp_host =
  wa_initData :: jsval
  wa_backgroundColor :: jsval
  wa_headerColor :: jsval
  wa_isClosingConfirmationEnabled :: jsval
  wa_isVerticalSwipesEnabled :: jsval
  wa_BackButton :: "BackButton_host option"
  wa_MainButton :: "MainButton_host option"

text \<open>
  The global \<^verbatim>\<open>Telegram\<close>: \<open>None\<close> when the global is not defined, and inside it
  \<open>None\<close> when \<^verbatim>\<open>Telegram.WebApp\<close> is not defined.
\<close>

datatype Telegram = Telegram "WebApp_host option"

section \<open>BackButton\<close>

text \<open>
  A BackButton holds nothing but the reference \<^verbatim>\<open>_backButton\<close>, so its state is the state
  of the host object it refers to.
\<close>

definition BackButton_constructor :: "Telegram option \<Rightarrow> error + BackButton_host" where
  "BackButton_constructor g =
     (case g of
        None \<Rightarrow> Inl (Error ''LTelegram: Telegram is not defined.'')
      | Some (Telegram w) \<Rightarrow>
          (case w of
             None \<Rightarrow> Inl (Error ''LTelegram: Telegram.WebApp is not defined.'')
           | Some wa \<Rightarrow>
               (case wa_BackButton wa of
                  None \<Rightarrow> Inl (Error ''LTelegram: Telegram.WebApp.BackButton is not defined.'')
                | Some b \<Rightarrow> Inr b)))"

definition BackButton_set_isVisible :: "jsval \<Rightarrow> BackButton_host \<Rightarrow> BackButton_host outcome" where
  "BackButton_set_isVisible v h =
     (if typeof v \<noteq> ''boolean'' then (Some (TypeError ''LTelegram: value must be a boolean''), h)
      else (None, h\<lparr>bb_isVisible := v\<rparr>))"

section \<open>MainButton\<close>

definition MainButton_set_color :: "jsval \<Rightarrow> MainButton_host \<Rightarrow> MainButton_host outcome" where
  "MainButton_set_color v h =
     (if \<not> MainButton_isValidHexColor v
      then (Some (ValueError ''LTelegram: Invalid hex color value''), h)
      else (None, h\<lparr>mb_color := v\<rparr>))"

definition MainButton_set_textColor :: "jsval \<Rightarrow> MainButton_host \<Rightarrow> MainButton_host outcome" where
  "MainButton_set_textColor v h =
     (if \<not> MainButton_isValidHexColor v
      then (Some (ValueError ''LTelegram: Invalid hex color value''), h)
      else (None, h\<lparr>mb_textColor := v\<rparr>))"

definition MainButton_set_isVisible :: "jsval \<Rightarrow> MainButton_host \<Rightarrow> MainButton_host outcome" where
  "MainButton_set_isVisible v h =
     (if typeof v \<noteq> ''boolean'' then (Some (TypeError ''LTelegram: value must be a boolean''), h)
      else (None, h\<lparr>mb_isVisible := v\<rparr>))"

definition MainButton_set_isActive :: "jsval \<Rightarrow> MainButton_host \<Rightarrow> MainButton_host outcome" where
  "MainButton_set_isActive v h =
     (if typeof v \<noteq> ''boolean'' then (Some (TypeError ''LTelegram: value must be a boolean''), h)
      else (None, h\<lparr>mb_isActive := v\<rparr>))"

definition MainButton_set_isProgressVisible ::
  "jsval \<Rightarrow> MainButton_host \<Rightarrow> MainButton_host outcome" where
  "MainButton_set_isProgressVisible v h =
     (if typeof v \<noteq> ''boolean'' then (Some (TypeError ''LTelegram: value must be a boolean''), h)
      else (None, h\<lparr>mb_isProgressVisible := v\<rparr>))"

text \<open>
  The constructor resolves the handle and then runs \<^verbatim>\<open>this.isVisible = true\<close> through the
  setter above. Its result is the state of the host main button after construction.
\<close>

definition MainButton_constructor :: "Telegram option \<Rightarrow> error + MainButton_host" where
  "MainButton_constructor g =
     (case g of
        None \<Rightarrow> Inl (Error ''LTelegram: Telegram is not defined.'')
      | Some (Telegram w) \<Rightarrow>
          (case w of
             None \<Rightarrow> Inl (Error ''LTelegram: Telegram.WebApp is not defined.'')
           | Some wa \<Rightarrow>
               (case wa_MainButton wa of
                  None \<Rightarrow> Inl (Error ''LTelegram: Telegram.WebApp.MainButton is not defined.'')
                | Some m \<Rightarrow>
                    (case MainButton_set_isVisible (JBool True) m of
                       (Some e, m') \<Rightarrow> Inl e
                     | (None, m') \<Rightarrow> Inr m'))))"

text \<open>
  The parameter object of \<^verbatim>\<open>setParams\<close>; a field that is absent reads as \<^verbatim>\<open>undefined\<close>.
\<close>

record MainButtonParams =
  p_text :: jsval
  p_color :: jsval
  p_text_color :: jsval
  p_is_active :: jsval
  p_is_visible :: jsval

text \<open>
  \<^verbatim>\<open>setParams\<close> ends with a call of the host's own \<^verbatim>\<open>setParams\<close>, which is not part of the
  library: it is the parameter \<open>host_setParams\<close>.
\<close>

definition MainButton_setParams ::
  "(MainButtonParams \<Rightarrow> MainButton_host \<Rightarrow> MainButton_host outcome) \<Rightarrow>
   MainButtonParams \<Rightarrow> MainButton_host \<Rightarrow> MainButton_host outcome" where
  "MainButton_setParams host_setParams params h =
     (if p_text params \<noteq> JUndefined \<and> typeof (p_text params) \<noteq> ''string''
      then (Some (TypeError ''LTelegram: text must be a string''), h)
      else if p_color params \<noteq> JUndefined \<and> \<not> MainButton_isValidHexColor (p_color params)
      then (Some (ValueError ''LTelegram: Invalid hex color value''), h)
      else if p_text_color params \<noteq> JUndefined
              \<and> \<not> MainButton_isValidHexColor (p_text_color params)
      then (Some (ValueError ''LTelegram: Invalid hex color value''), h)
      else if p_is_active params \<noteq> JUndefined \<and> typeof (p_is_active params) \<noteq> ''boolean''
      then (Some (TypeError ''LTelegram: is_active must be a boolean''), h)
      else if p_is_visible params \<noteq> JUndefined \<and> typeof (p_is_visible params) \<noteq> ''boolean''
      then (Some (TypeError ''LTelegram: is_visible must be a boolean''), h)
      else host_setParams params h)"

section \<open>WebApp\<close>

text \<open>
  A WebApp holds the reference \<^verbatim>\<open>_webApp\<close> to the host object and its own copy
  \<^verbatim>\<open>_initData\<close>.
\<close>

record WebApp =
  priv_webApp :: WebApp_host
  priv_initData :: jsval

definition WebApp_constructor :: "Telegram option \<Rightarrow> error + WebApp" where
  "WebApp_constructor g =
     (case g of
        None \<Rightarrow> Inl (Error ''LTelegram: Telegram is not defined.'')
      | Some (Telegram w) \<Rightarrow>
          (case w of
             None \<Rightarrow> Inl (Error ''LTelegram: Telegram.WebApp is not defined.'')
           | Some wa \<Rightarrow> Inr \<lparr>priv_webApp = wa, priv_initData = wa_initData wa\<rparr>))"

definition WebApp_get_initData :: "WebApp \<Rightarrow> jsval" where
  "WebApp_get_initData this = priv_initData this"

definition WebApp_set_initData :: "jsval \<Rightarrow> WebApp \<Rightarrow> WebApp outcome" where
  "WebApp_set_initData v this =
     (if typeof v \<noteq> ''string''
      then (None, this\<lparr>priv_initData := wa_initData (priv_webApp this)\<rparr>)
      else (None, this\<lparr>priv_initData := v\<rparr>))"

definition WebApp_set_backgroundColor :: "jsval \<Rightarrow> WebApp \<Rightarrow> WebApp outcome" where
  "WebApp_set_backgroundColor v this =
     (if typeof v \<noteq> ''string'' then (Some (TypeError ''LTelegram: value must be a string''), this)
      else if \<not> WebApp_isValidHexColor v
      then (Some (ValueError ''LTelegram: Invalid hex color value''), this)
      else (None, this\<lparr>priv_webApp := (priv_webApp this)\<lparr>wa_backgroundColor := v\<rparr>\<rparr>))"

definition WebApp_set_headerColor :: "jsval \<Rightarrow> WebApp \<Rightarrow> WebApp outcome" where
  "WebApp_set_headerColor v this =
     (if typeof v \<noteq> ''string'' then (Some (TypeError ''LTelegram: value must be a string''), this)
      else if \<not> WebApp_isValidHexColor v
      then (Some (ValueError ''LTelegram: Invalid hex color value''), this)
      else (None, this\<lparr>priv_webApp := (priv_webApp this)\<lparr>wa_headerColor := v\<rparr>\<rparr>))"

definition WebApp_set_isClosingConfirmationEnabled :: "jsval \<Rightarrow> WebApp \<Rightarrow> WebApp outcome" where
  "WebApp_set_isClosingConfirmationEnabled v this =
     (if typeof v \<noteq> ''boolean'' then (Some (TypeError ''LTelegram: value must be a boolean''), this)
      else (None, this\<lparr>priv_webApp := (priv_webApp this)\<lparr>wa_isClosingConfirmationEnabled := v\<rparr>\<rparr>))"

definition WebApp_set_isVerticalSwipesEnabled :: "jsval \<Rightarrow> WebApp \<Rightarrow> WebApp outcome" where
  "WebApp_set_isVerticalSwipesEnabled v this =
     (if typeof v \<noteq> ''boolean'' then (Some (TypeError ''LTelegram: value must be a boolean''), this)
      else (None, this\<lparr>priv_webApp := (priv_webApp this)\<lparr>wa_isVerticalSwipesEnabled := v\<rparr>\<rparr>))"

section \<open>Click callbacks\<close>

text \<open>
  A function supplied by the user of the library is known by its identity; calling it is
  recorded, and the call either returns (\<open>True\<close>) or throws (\<open>False\<close>). It does not
  touch the button itself.
\<close>

datatype fn = Fn nat bool

text \<open>
  What is registered with the host is either such a function or the closure
  \<^verbatim>\<open>handleClick\<close> that a call of \<^verbatim>\<open>onceClick\<close> creates around one; each call creates a new
  closure, told apart by the number of closures created before it.
\<close>

datatype callback = User fn | HandleClick nat fn

record click_state =
  handlers :: "callback list"
  calls :: "nat list"
  closures :: nat

text \<open>
  Modelled from the spec: the event mechanism of the host button, which is not part of the
  library. \<^verbatim>\<open>onClick\<close> registers a callback and \<^verbatim>\<open>offClick\<close> removes the callback with
  that identity. How a click goes through several registered callbacks is not stated and
  is not modelled.
\<close>

definition host_onClick :: "callback \<Rightarrow> click_state \<Rightarrow> click_state" where
  "host_onClick c st = st\<lparr>handlers := handlers st @ [c]\<rparr>"

definition host_offClick :: "callback \<Rightarrow> click_state \<Rightarrow> click_state" where
  "host_offClick c st = st\<lparr>handlers := remove1 c (handlers st)\<rparr>"

text \<open>
  \<^verbatim>\<open>onClick\<close>, \<^verbatim>\<open>offClick\<close> and \<^verbatim>\<open>onceClick\<close> are written the same way in BackButton and in
  MainButton, each over its own host handle; the definitions below embed both.
\<close>

definition onClick :: "callback \<Rightarrow> click_state \<Rightarrow> click_state" where
  "onClick c st = host_onClick c st"

definition offClick :: "callback \<Rightarrow> click_state \<Rightarrow> click_state" where
  "offClick c st = host_offClick c st"

definition call_fn :: "fn \<Rightarrow> click_state \<Rightarrow> bool \<times> click_state" where
  "call_fn f st = (case f of Fn i returns \<Rightarrow> (returns, st\<lparr>calls := calls st @ [i]\<rparr>))"

text \<open>
  The body of the closure: \<^verbatim>\<open>callback(); this.offClick(handleClick);\<close>. When the callback
  throws, the second statement is not reached.
\<close>

definition handleClick :: "nat \<Rightarrow> fn \<Rightarrow> click_state \<Rightarrow> bool \<times> click_state" where
  "handleClick k f st =
     (case call_fn f st of
        (True, st') \<Rightarrow> (True, offClick (HandleClick k f) st')
      | (False, st') \<Rightarrow> (False, st'))"

definition onceClick :: "fn \<Rightarrow> click_state \<Rightarrow> click_state" where
  "onceClick f st =
     onClick (HandleClick (closures st) f) (st\<lparr>closures := Suc (closures st)\<rparr>)"

text \<open>
  The host calling one callback that is registered with it, as a click does when that
  callback is the only one registered.
\<close>

fun invoke :: "callback \<Rightarrow> click_state \<Rightarrow> bool \<times> click_state" where
  "invoke (User f) st = call_fn f st"
| "invoke (HandleClick k f) st = handleClick k f st"

section \<open>The checks in the words of the specification\<close>

text \<open>
  The kinds of error, and the three checks a field of the parameter object can fail: a
  field is defined when it is not \<^verbatim>\<open>undefined\<close>; a defined \<^verbatim>\<open>text\<close> must be a string, a
  defined colour must be a string of the hexadecimal format (anything else, a value that
  is not a string included, fails), a defined flag must be a boolean.
\<close>

datatype error_kind = ConstructionKind | TypeKind | ValueKind

fun kind :: "error \<Rightarrow> error_kind" where
  "kind (Error m) = ConstructionKind"
| "kind (TypeError m) = TypeKind"
| "kind (ValueError m) = ValueKind"

fun is_string :: "jsval \<Rightarrow> bool" where
  "is_string (JStr s) = True"
| "is_string v = False"

fun is_boolean :: "jsval \<Rightarrow> bool" where
  "is_boolean (JBool b) = True"
| "is_boolean v = False"

definition bad_string :: "jsval \<Rightarrow> bool" where
  "bad_string v = (v \<noteq> JUndefined \<and> \<not> is_string v)"

fun spec_valid_color :: "jsval \<Rightarrow> bool" where
  "spec_valid_color (JStr s) = spec_hex_color s"
| "spec_valid_color v = False"

definition spec_bad_color :: "jsval \<Rightarrow> bool" where
  "spec_bad_color v = (v \<noteq> JUndefined \<and> \<not> spec_valid_color v)"

definition bad_boolean :: "jsval \<Rightarrow> bool" where
  "bad_boolean v = (v \<noteq> JUndefined \<and> \<not> is_boolean v)"

text \<open>The kinds of the violations of a parameter object, in the order of its fields.\<close>

definition spec_violations :: "MainButtonParams \<Rightarrow> error_kind list" where
  "spec_violations params =
     (if bad_string (p_text params) then [TypeKind] else [])
     @ (if spec_bad_color (p_color params) then [ValueKind] else [])
     @ (if spec_bad_color (p_text_color params) then [ValueKind] else [])
     @ (if bad_boolean (p_is_active params) then [TypeKind] else [])
     @ (if bad_boolean (p_is_visible params) then [TypeKind] else [])"

section \<open>The colour check on the converted value\<close>

text \<open>
  The rule the colour checks of MainButton follow instead: a defined colour fails when the
  string it is converted to does not have the format, whether or not the colour is a
  string itself. \<open>violations\<close> lists the violations of a parameter object under this
  rule, and \<open>string_colors\<close> tells the parameter objects whose colours are strings where
  they are defined, on which the two rules cannot differ.
\<close>

definition bad_color :: "jsval \<Rightarrow> bool" where
  "bad_color v = (v \<noteq> JUndefined \<and> \<not> spec_hex_color (ToString v))"

definition violations :: "MainButtonParams \<Rightarrow> error_kind list" where
  "violations params =
     (if bad_string (p_text params) then [TypeKind] else [])
     @ (if bad_color (p_color params) then [ValueKind] else [])
     @ (if bad_color (p_text_color params) then [ValueKind] else [])
     @ (if bad_boolean (p_is_active params) then [TypeKind] else [])
     @ (if bad_boolean (p_is_visible params) then [TypeKind] else [])"

definition string_colors :: "MainButtonParams \<Rightarrow> bool" where
  "string_colors params =
     ((p_color params = JUndefined \<or> is_string (p_color params))
      \<and> (p_text_color params = JUndefined \<or> is_string (p_text_color params)))"

section \<open>Sample states\<close>

definition sample_BackButton_host :: BackButton_host where
  "sample_BackButton_host = \<lparr>bb_isVisible = JBool False\<rparr>"

definition sample_MainButton_host :: MainButton_host where
  "sample_MainButton_host =
     \<lparr>mb_text = JStr (str ''Continue''), mb_color = JStr (str ''#2481cc''),
      mb_textColor = JStr (str ''#ffffff''), mb_isVisible = JBool False,
      mb_isActive = JBool True, mb_isProgressVisible = JBool False\<rparr>"

definition sample_WebApp_host :: WebApp_host where
  "sample_WebApp_host =
     \<lparr>wa_initData = JStr (str ''query_id=1''), wa_backgroundColor = JStr (str ''#ffffff''),
      wa_headerColor = JStr (str ''#ffffff''), wa_isClosingConfirmationEnabled = JBool False,
      wa_isVerticalSwipesEnabled = JBool True,
      wa_BackButton = Some sample_BackButton_host,
      wa_MainButton = Some sample_MainButton_host\<rparr>"

definition sample_WebApp :: WebApp where
  "sample_WebApp = \<lparr>priv_webApp = sample_WebApp_host, priv_initData = JStr (str ''cached'')\<rparr>"

definition no_params :: MainButtonParams where
  "no_params =
     \<lparr>p_text = JUndefined, p_color = JUndefined, p_text_color = JUndefined,
      p_is_active = JUndefined, p_is_visible = JUndefined\<rparr>"

text \<open>A host \<^verbatim>\<open>setParams\<close> that stores the text and the colour it is given.\<close>

definition sample_host_setParams ::
  "MainButtonParams \<Rightarrow> MainButton_host \<Rightarrow> MainButton_host outcome" where
  "sample_host_setParams params h =
     (None, h\<lparr>mb_text := (if p_text params = JUndefined then mb_text h else p_text params),
              mb_color := (if p_color params = JUndefined then mb_color h else p_color params)\<rparr>)"

definition sample_click_state :: click_state where
  "sample_click_state = \<lparr>handlers = [], calls = [], closures = 0\<rparr>"

section \<open>The hexadecimal colour format\<close>

lemma cu_simps:
  "cu CHR ''#'' = 35" "cu CHR ''0'' = 48" "cu CHR ''9'' = 57" "cu CHR ''A'' = 65"
  "cu CHR ''F'' = 70" "cu CHR ''a'' = 97" "cu CHR ''f'' = 102" "cu CHR ''-'' = 45"
  by (simp_all add: cu_def)

lemma in_class_hex: "in_class hex_ranges c = spec_hex_digit c"
  unfolding spec_hex_digit_def
  apply (simp add: hex_ranges_def cu_def str_def)
  apply (simp add: word_le_nat_alt word_unat_eq_iff)
  apply arith
  done

lemma search_Bol_False: "search (Bol # p) False s = False"
  by (induction s) simp_all

lemma match_classes_Eol:
  "match_here (replicate n (Cls r) @ [Eol]) False s = (length s = n \<and> list_all (in_class r) s)"
proof (induction n arbitrary: s)
  case 0
  show ?case by (cases s) simp_all
next
  case (Suc n)
  show ?case by (cases s) (auto simp: Suc.IH)
qed

lemma search_hex_color_regex: "search hex_color_regex True s = spec_hex_color s"
proof (cases s)
  case Nil
  then show ?thesis
    by (simp add: hex_color_regex_def spec_hex_color_def del: replicate.simps)
next
  case (Cons c t)
  have "in_class hex_ranges = spec_hex_digit"
    by (rule ext) (rule in_class_hex)
  then have "list_all (in_class hex_ranges) t = list_all spec_hex_digit t"
    by simp
  then show ?thesis using Cons
    by (auto simp add: hex_color_regex_def spec_hex_color_def search_Bol_False
        match_classes_Eol simp del: replicate.simps replicate_Suc)
qed

lemma test_hex_color_regex_string: "test hex_color_regex (JStr s) = spec_hex_color s"
  by (simp add: test_def search_hex_color_regex)

text \<open>
  C1. On a string, \<^verbatim>\<open>isValidHexColor\<close> of MainButton and of WebApp returns true if and
  only if the string is exactly \<^verbatim>\<open>#\<close> followed by 6 characters, each a hexadecimal digit
  \<^verbatim>\<open>0-9\<close>, \<^verbatim>\<open>A-F\<close> or \<^verbatim>\<open>a-f\<close>; every other string fails.
\<close>

theorem isValidHexColor_string:
  "MainButton_isValidHexColor (JStr s) = spec_hex_color s
   \<and> WebApp_isValidHexColor (JStr s) = spec_hex_color s"
  by (simp add: MainButton_isValidHexColor_def WebApp_isValidHexColor_def
      test_hex_color_regex_string)

theorem isValidHexColor_string_witness:
  "MainButton_isValidHexColor (JStr (str ''#1A2b3C''))
   \<and> \<not> WebApp_isValidHexColor (JStr (str ''#1A2b3''))"
  using isValidHexColor_string [of "str ''#1A2b3C''"] isValidHexColor_string [of "str ''#1A2b3''"]
  by (simp add: spec_hex_color_def spec_hex_digit_def str_def cu_def)

section \<open>Values that are not strings\<close>

lemma typeof_boolean: "(typeof v = ''boolean'') = (\<exists>x. v = JBool x)"
  by (cases v) simp_all

lemma typeof_string: "(typeof v = ''string'') = (\<exists>s. v = JStr s)"
  by (cases v) simp_all

lemma digits_head: "\<exists>c t. digits n = c # t \<and> c \<noteq> cu CHR ''#''"
proof (induction n rule: digits.induct)
  case (1 n)
  show ?case
  proof (cases "n < 10")
    case True
    then have "n \<in> {0, 1, 2, 3, 4, 5, 6, 7, 8, 9}"
      by (simp; arith)
    then have "cu CHR ''0'' + of_nat n \<noteq> cu CHR ''#''"
      by (auto simp: cu_simps)
    with True show ?thesis
      by (simp add: digits.simps [of n])
  next
    case False
    with 1 obtain c t where "digits (n div 10) = c # t" "c \<noteq> cu CHR ''#''"
      by auto
    with False show ?thesis
      by (simp add: digits.simps [of n])
  qed
qed

lemma search_hex_head: "c \<noteq> cu CHR ''#'' \<Longrightarrow> search hex_color_regex True (c # t) = False"
  unfolding search_hex_color_regex by (simp add: spec_hex_color_def)

lemma NumberToString_head: "\<exists>c t. NumberToString n = c # t \<and> c \<noteq> cu CHR ''#''"
  using digits_head [of "nat n"] by (auto simp: NumberToString_def cu_simps)

lemma test_hex_primitive:
  "test hex_color_regex JUndefined = False"
  "test hex_color_regex JNull = False"
  "test hex_color_regex (JBool b) = False"
  "test hex_color_regex JObj = False"
  unfolding test_def search_hex_color_regex
  by (simp_all add: spec_hex_color_def str_def cu_def)

lemma test_hex_number: "test hex_color_regex (JNum n) = False"
  using NumberToString_head [of n] search_hex_head unfolding test_def by fastforce

lemma test_hex_ToString: "test hex_color_regex v = spec_hex_color (ToString v)"
  by (simp add: test_def search_hex_color_regex)

section \<open>Property setters\<close>

text \<open>
  C3. Assigning a value that is not a boolean to a boolean property (BackButton.isVisible;
  MainButton.isVisible, isActive, isProgressVisible; WebApp.isClosingConfirmationEnabled,
  isVerticalSwipesEnabled) raises a type error and leaves the host as it was; assigning a
  boolean stores it in the host property.
\<close>

theorem boolean_setters:
  "((\<forall>x. v \<noteq> JBool x) \<longrightarrow>
      BackButton_set_isVisible v bb = (Some (TypeError ''LTelegram: value must be a boolean''), bb)
    \<and> MainButton_set_isVisible v mb = (Some (TypeError ''LTelegram: value must be a boolean''), mb)
    \<and> MainButton_set_isActive v mb = (Some (TypeError ''LTelegram: value must be a boolean''), mb)
    \<and> MainButton_set_isProgressVisible v mb
        = (Some (TypeError ''LTelegram: value must be a boolean''), mb)
    \<and> WebApp_set_isClosingConfirmationEnabled v wa
        = (Some (TypeError ''LTelegram: value must be a boolean''), wa)
    \<and> WebApp_set_isVerticalSwipesEnabled v wa
        = (Some (TypeError ''LTelegram: value must be a boolean''), wa))
   \<and> BackButton_set_isVisible (JBool b) bb = (None, bb\<lparr>bb_isVisible := JBool b\<rparr>)
   \<and> MainButton_set_isVisible (JBool b) mb = (None, mb\<lparr>mb_isVisible := JBool b\<rparr>)
   \<and> MainButton_set_isActive (JBool b) mb = (None, mb\<lparr>mb_isActive := JBool b\<rparr>)
   \<and> MainButton_set_isProgressVisible (JBool b) mb = (None, mb\<lparr>mb_isProgressVisible := JBool b\<rparr>)
   \<and> WebApp_set_isClosingConfirmationEnabled (JBool b) wa
       = (None, wa\<lparr>priv_webApp := (priv_webApp wa)\<lparr>wa_isClosingConfirmationEnabled := JBool b\<rparr>\<rparr>)
   \<and> WebApp_set_isVerticalSwipesEnabled (JBool b) wa
       = (None, wa\<lparr>priv_webApp := (priv_webApp wa)\<lparr>wa_isVerticalSwipesEnabled := JBool b\<rparr>\<rparr>)"
  by (simp add: BackButton_set_isVisible_def MainButton_set_isVisible_def
      MainButton_set_isActive_def MainButton_set_isProgressVisible_def
      WebApp_set_isClosingConfirmationEnabled_def WebApp_set_isVerticalSwipesEnabled_def
      typeof_boolean)

theorem boolean_setters_witness:
  "BackButton_set_isVisible (JStr (str ''true'')) sample_BackButton_host
     = (Some (TypeError ''LTelegram: value must be a boolean''), sample_BackButton_host)
   \<and> MainButton_set_isActive (JStr (str ''true'')) sample_MainButton_host
     = (Some (TypeError ''LTelegram: value must be a boolean''), sample_MainButton_host)
   \<and> WebApp_set_isVerticalSwipesEnabled (JStr (str ''true'')) sample_WebApp
     = (Some (TypeError ''LTelegram: value must be a boolean''), sample_WebApp)
   \<and> bb_isVisible (snd (BackButton_set_isVisible (JBool True) sample_BackButton_host)) = JBool True"
  using boolean_setters [where v = "JStr (str ''true'')" and bb = sample_BackButton_host
      and mb = sample_MainButton_host and wa = sample_WebApp and b = True]
  by simp

text \<open>
  C5. The WebApp constructor keeps the host object and caches its \<^verbatim>\<open>initData\<close>; the
  \<^verbatim>\<open>initData\<close> getter returns the cache; assigning a string replaces the cache with that
  string; assigning anything else raises no error and resets the cache to the current
  \<^verbatim>\<open>initData\<close> of the host object, which the getter then returns.
\<close>

theorem initData_cache:
  "WebApp_constructor (Some (Telegram (Some wa)))
     = Inr \<lparr>priv_webApp = wa, priv_initData = wa_initData wa\<rparr>
   \<and> WebApp_get_initData \<lparr>priv_webApp = wa, priv_initData = wa_initData wa\<rparr> = wa_initData wa
   \<and> WebApp_get_initData this = priv_initData this
   \<and> WebApp_set_initData (JStr s) this = (None, this\<lparr>priv_initData := JStr s\<rparr>)
   \<and> WebApp_get_initData (snd (WebApp_set_initData (JStr s) this)) = JStr s
   \<and> ((\<forall>s. v \<noteq> JStr s) \<longrightarrow>
        WebApp_set_initData v this
          = (None, this\<lparr>priv_initData := wa_initData (priv_webApp this)\<rparr>)
        \<and> WebApp_get_initData (snd (WebApp_set_initData v this))
          = wa_initData (priv_webApp this))"
  by (auto simp add: WebApp_constructor_def WebApp_get_initData_def WebApp_set_initData_def
      typeof_string)

text \<open>
  The witness constructs the wrapper over the sample host, lets the host's \<^verbatim>\<open>initData\<close>
  change, and assigns \<^verbatim>\<open>42\<close>: the getter returns the host's new value.
\<close>

theorem initData_cache_witness:
  "WebApp_constructor (Some (Telegram (Some sample_WebApp_host)))
     = Inr \<lparr>priv_webApp = sample_WebApp_host, priv_initData = JStr (str ''query_id=1'')\<rparr>
   \<and> WebApp_set_initData (JNum 42)
        \<lparr>priv_webApp = sample_WebApp_host\<lparr>wa_initData := JStr (str ''query_id=2'')\<rparr>,
         priv_initData = JStr (str ''query_id=1'')\<rparr>
     = (None, \<lparr>priv_webApp = sample_WebApp_host\<lparr>wa_initData := JStr (str ''query_id=2'')\<rparr>,
               priv_initData = JStr (str ''query_id=2'')\<rparr>)
   \<and> WebApp_get_initData (snd (WebApp_set_initData (JNum 42)
        \<lparr>priv_webApp = sample_WebApp_host\<lparr>wa_initData := JStr (str ''query_id=2'')\<rparr>,
         priv_initData = JStr (str ''query_id=1'')\<rparr>))
     = JStr (str ''query_id=2'')
   \<and> WebApp_get_initData (snd (WebApp_set_initData (JStr (str ''abc''))
        \<lparr>priv_webApp = sample_WebApp_host\<lparr>wa_initData := JStr (str ''query_id=2'')\<rparr>,
         priv_initData = JStr (str ''query_id=1'')\<rparr>))
     = JStr (str ''abc'')"
proof -
  have captured: "wa_initData sample_WebApp_host = JStr (str ''query_id=1'')"
    by (simp add: sample_WebApp_host_def)
  have non_string: "\<forall>s. JNum 42 \<noteq> JStr s"
    by simp
  show ?thesis
    using initData_cache [where wa = sample_WebApp_host
        and this = "\<lparr>priv_webApp = sample_WebApp_host\<lparr>wa_initData := JStr (str ''query_id=2'')\<rparr>,
                     priv_initData = JStr (str ''query_id=1'')\<rparr>"
        and s = "str ''abc''" and v = "JNum 42"] captured non_string
    by (simp add: WebApp_get_initData_def)
qed

text \<open>
  C6. The \<^verbatim>\<open>backgroundColor\<close> and \<^verbatim>\<open>headerColor\<close> setters of WebApp raise a type error on
  a value that is not a string, a value error on a string that does not have the
  hexadecimal format, both without touching the host, and store a string that has the
  format in the host property.
\<close>

theorem WebApp_color_setters:
  "((\<forall>s. v \<noteq> JStr s) \<longrightarrow>
      WebApp_set_backgroundColor v this
        = (Some (TypeError ''LTelegram: value must be a string''), this)
    \<and> WebApp_set_headerColor v this
        = (Some (TypeError ''LTelegram: value must be a string''), this))
   \<and> (\<not> spec_hex_color s \<longrightarrow>
      WebApp_set_backgroundColor (JStr s) this
        = (Some (ValueError ''LTelegram: Invalid hex color value''), this)
    \<and> WebApp_set_headerColor (JStr s) this
        = (Some (ValueError ''LTelegram: Invalid hex color value''), this))
   \<and> (spec_hex_color s \<longrightarrow>
      WebApp_set_backgroundColor (JStr s) this
        = (None, this\<lparr>priv_webApp := (priv_webApp this)\<lparr>wa_backgroundColor := JStr s\<rparr>\<rparr>)
    \<and> WebApp_set_headerColor (JStr s) this
        = (None, this\<lparr>priv_webApp := (priv_webApp this)\<lparr>wa_headerColor := JStr s\<rparr>\<rparr>))"
  by (simp add: WebApp_set_backgroundColor_def WebApp_set_headerColor_def typeof_string
      WebApp_isValidHexColor_def test_hex_color_regex_string)

theorem WebApp_color_setters_witness:
  "WebApp_set_backgroundColor (JNum 0) sample_WebApp
     = (Some (TypeError ''LTelegram: value must be a string''), sample_WebApp)
   \<and> WebApp_set_headerColor (JStr (str ''#fff'')) sample_WebApp
     = (Some (ValueError ''LTelegram: Invalid hex color value''), sample_WebApp)
   \<and> wa_backgroundColor
        (priv_webApp (snd (WebApp_set_backgroundColor (JStr (str ''#1A2b3C'')) sample_WebApp)))
     = JStr (str ''#1A2b3C'')"
  using WebApp_color_setters [where v = "JNum 0" and this = sample_WebApp and s = "str ''#fff''"]
    WebApp_color_setters [where v = "JNum 0" and this = sample_WebApp and s = "str ''#1A2b3C''"]
  by (simp add: spec_hex_color_def spec_hex_digit_def str_def cu_def)


section \<open>MainButton colours and the constructors\<close>

text \<open>
  C7, as stated, fails: the claim has every value that is not a string end in a value
  error, but \<^verbatim>\<open>test\<close> converts its argument to a string first, so the array
  \<^verbatim>\<open>['#ffffff']\<close> passes the check and is stored in the host without any error.
\<close>

theorem MainButton_color_setters_counterexample:
  "MainButton_set_color (JArr [JStr (str ''#ffffff'')]) sample_MainButton_host
     = (None, sample_MainButton_host\<lparr>mb_color := JArr [JStr (str ''#ffffff'')]\<rparr>)
   \<and> typeof (JArr [JStr (str ''#ffffff'')]) \<noteq> ''string''"
  by (simp add: MainButton_set_color_def MainButton_isValidHexColor_def test_hex_ToString
      spec_hex_color_def spec_hex_digit_def str_def cu_def)

text \<open>
  C7, amended. The \<^verbatim>\<open>color\<close> and \<^verbatim>\<open>textColor\<close> setters of MainButton check only the
  format of the value converted to a string: when that string is not \<^verbatim>\<open>#\<close> and 6
  hexadecimal digits they raise a value error and leave the host as it was, otherwise they
  store the value itself in the host property; they never raise a type error. A string is
  its own conversion, and \<^verbatim>\<open>undefined\<close>, \<^verbatim>\<open>null\<close>, a boolean, a number and a plain
  object never have the format.
\<close>

theorem MainButton_color_setters:
  "(\<not> spec_hex_color (ToString v) \<longrightarrow>
      MainButton_set_color v h = (Some (ValueError ''LTelegram: Invalid hex color value''), h)
    \<and> MainButton_set_textColor v h
        = (Some (ValueError ''LTelegram: Invalid hex color value''), h))
   \<and> (spec_hex_color (ToString v) \<longrightarrow>
      MainButton_set_color v h = (None, h\<lparr>mb_color := v\<rparr>)
    \<and> MainButton_set_textColor v h = (None, h\<lparr>mb_textColor := v\<rparr>))
   \<and> ToString (JStr s) = s
   \<and> (v \<in> {JUndefined, JNull, JObj} \<union> range JBool \<union> range JNum
        \<longrightarrow> \<not> spec_hex_color (ToString v))
   \<and> fst (MainButton_set_color v h) \<noteq> Some (TypeError m)
   \<and> fst (MainButton_set_textColor v h) \<noteq> Some (TypeError m)"
proof -
  have "v \<in> {JUndefined, JNull, JObj} \<union> range JBool \<union> range JNum
        \<Longrightarrow> \<not> test hex_color_regex v"
    using test_hex_primitive test_hex_number by auto
  then show ?thesis
    by (simp add: MainButton_set_color_def MainButton_set_textColor_def
        MainButton_isValidHexColor_def test_hex_ToString)
qed

theorem MainButton_color_setters_witness:
  "MainButton_set_color (JNum 255) sample_MainButton_host
     = (Some (ValueError ''LTelegram: Invalid hex color value''), sample_MainButton_host)
   \<and> MainButton_set_textColor (JStr (str ''#1A2b3C'')) sample_MainButton_host
     = (None, sample_MainButton_host\<lparr>mb_textColor := JStr (str ''#1A2b3C'')\<rparr>)"
  using MainButton_color_setters [where v = "JNum 255" and h = sample_MainButton_host]
    MainButton_color_setters [where v = "JStr (str ''#1A2b3C'')" and h = sample_MainButton_host]
  by (simp add: spec_hex_color_def spec_hex_digit_def str_def cu_def)

text \<open>
  C8. When the host main button exists, the MainButton constructor succeeds and leaves
  it with \<^verbatim>\<open>isVisible\<close> true, whatever it was before; so after any successful construction
  the host's \<^verbatim>\<open>isVisible\<close> is true.
\<close>

theorem MainButton_constructor_isVisible:
  "(wa_MainButton wa = Some m \<longrightarrow>
      MainButton_constructor (Some (Telegram (Some wa))) = Inr (m\<lparr>mb_isVisible := JBool True\<rparr>))
   \<and> (MainButton_constructor g = Inr m' \<longrightarrow> mb_isVisible m' = JBool True)"
  by (auto simp add: MainButton_constructor_def MainButton_set_isVisible_def
      split: option.splits Telegram.splits)

theorem MainButton_constructor_isVisible_witness:
  "MainButton_constructor (Some (Telegram (Some sample_WebApp_host)))
     = Inr (sample_MainButton_host\<lparr>mb_isVisible := JBool True\<rparr>)
   \<and> mb_isVisible sample_MainButton_host = JBool False
   \<and> mb_isVisible (sample_MainButton_host\<lparr>mb_isVisible := JBool True\<rparr>) = JBool True"
proof -
  have present: "wa_MainButton sample_WebApp_host = Some sample_MainButton_host"
    by (simp add: sample_WebApp_host_def)
  have ctor: "MainButton_constructor (Some (Telegram (Some sample_WebApp_host)))
     = Inr (sample_MainButton_host\<lparr>mb_isVisible := JBool True\<rparr>)"
    using MainButton_constructor_isVisible [where wa = sample_WebApp_host
        and m = sample_MainButton_host] present
    by simp
  show ?thesis
    using ctor MainButton_constructor_isVisible [where
        g = "Some (Telegram (Some sample_WebApp_host))"
        and m' = "sample_MainButton_host\<lparr>mb_isVisible := JBool True\<rparr>"]
    by (simp add: sample_MainButton_host_def)
qed

text \<open>
  C9. The BackButton and the MainButton constructor fail exactly when \<^verbatim>\<open>Telegram\<close>,
  \<^verbatim>\<open>Telegram.WebApp\<close> or their own button object is not defined; the WebApp constructor
  fails exactly when \<^verbatim>\<open>Telegram\<close> or \<^verbatim>\<open>Telegram.WebApp\<close> is not defined, whether or not
  the buttons exist. A failure is a plain \<^verbatim>\<open>Error\<close> and yields no instance.
\<close>

theorem constructors_fail:
  "((\<exists>e. BackButton_constructor g = Inl e) \<longleftrightarrow>
      g = None \<or> g = Some (Telegram None)
      \<or> (\<exists>wa. g = Some (Telegram (Some wa)) \<and> wa_BackButton wa = None))
   \<and> ((\<exists>e. MainButton_constructor g = Inl e) \<longleftrightarrow>
      g = None \<or> g = Some (Telegram None)
      \<or> (\<exists>wa. g = Some (Telegram (Some wa)) \<and> wa_MainButton wa = None))
   \<and> ((\<exists>e. WebApp_constructor g = Inl e) \<longleftrightarrow> g = None \<or> g = Some (Telegram None))
   \<and> (BackButton_constructor g = Inl e \<longrightarrow> kind e = ConstructionKind)
   \<and> (MainButton_constructor g = Inl e \<longrightarrow> kind e = ConstructionKind)
   \<and> (WebApp_constructor g = Inl e \<longrightarrow> kind e = ConstructionKind)"
  by (auto simp add: BackButton_constructor_def MainButton_constructor_def
      WebApp_constructor_def MainButton_set_isVisible_def
      split: option.splits Telegram.splits)

theorem constructors_fail_witness:
  "BackButton_constructor (Some (Telegram (Some (sample_WebApp_host\<lparr>wa_BackButton := None\<rparr>))))
     = Inl (Error ''LTelegram: Telegram.WebApp.BackButton is not defined.'')
   \<and> (\<forall>e. WebApp_constructor
          (Some (Telegram (Some (sample_WebApp_host\<lparr>wa_BackButton := None\<rparr>)))) \<noteq> Inl e)"
  using constructors_fail [where
      g = "Some (Telegram (Some (sample_WebApp_host\<lparr>wa_BackButton := None\<rparr>)))"
      and e = "Error ''LTelegram: Telegram.WebApp.BackButton is not defined.''"]
  by (auto simp add: BackButton_constructor_def)

section \<open>setParams\<close>

lemma bad_string_typeof: "bad_string v = (v \<noteq> JUndefined \<and> typeof v \<noteq> ''string'')"
  by (cases v) (simp_all add: bad_string_def)

lemma bad_boolean_typeof: "bad_boolean v = (v \<noteq> JUndefined \<and> typeof v \<noteq> ''boolean'')"
  by (cases v) (simp_all add: bad_boolean_def)

lemma bad_color_isValidHexColor:
  "bad_color v = (v \<noteq> JUndefined \<and> \<not> MainButton_isValidHexColor v)"
  by (simp add: bad_color_def MainButton_isValidHexColor_def test_hex_ToString)

lemma setParams_cases:
  "MainButton_setParams host_setParams params h =
     (if bad_string (p_text params)
      then (Some (TypeError ''LTelegram: text must be a string''), h)
      else if bad_color (p_color params)
      then (Some (ValueError ''LTelegram: Invalid hex color value''), h)
      else if bad_color (p_text_color params)
      then (Some (ValueError ''LTelegram: Invalid hex color value''), h)
      else if bad_boolean (p_is_active params)
      then (Some (TypeError ''LTelegram: is_active must be a boolean''), h)
      else if bad_boolean (p_is_visible params)
      then (Some (TypeError ''LTelegram: is_visible must be a boolean''), h)
      else host_setParams params h)"
  by (simp add: MainButton_setParams_def bad_string_typeof bad_boolean_typeof
      bad_color_isValidHexColor)

lemma string_colors_violations:
  "string_colors params \<Longrightarrow> violations params = spec_violations params"
proof -
  have same: "bad_color v = spec_bad_color v" if "v = JUndefined \<or> is_string v" for v
    using that by (cases v) (simp_all add: bad_color_def spec_bad_color_def)
  assume "string_colors params"
  then have "bad_color (p_color params) = spec_bad_color (p_color params)"
    and "bad_color (p_text_color params) = spec_bad_color (p_text_color params)"
    by (simp_all add: string_colors_def same)
  then show ?thesis
    by (simp add: violations_def spec_violations_def)
qed

text \<open>
  C2, as stated, fails: a colour that is not a string does not have the format of the
  specification, but the check converts it first. With the array \<^verbatim>\<open>['#ffffff']\<close> as
  \<^verbatim>\<open>color\<close> no error is raised and the object reaches the host's \<^verbatim>\<open>setParams\<close>, which
  here stores the array as the colour.
\<close>

theorem setParams_validates_counterexample:
  "spec_violations (no_params\<lparr>p_color := JArr [JStr (str ''#ffffff'')]\<rparr>) = [ValueKind]
   \<and> MainButton_setParams sample_host_setParams
        (no_params\<lparr>p_color := JArr [JStr (str ''#ffffff'')]\<rparr>) sample_MainButton_host
      = sample_host_setParams
          (no_params\<lparr>p_color := JArr [JStr (str ''#ffffff'')]\<rparr>) sample_MainButton_host
   \<and> fst (MainButton_setParams sample_host_setParams
        (no_params\<lparr>p_color := JArr [JStr (str ''#ffffff'')]\<rparr>) sample_MainButton_host) = None
   \<and> mb_color (snd (MainButton_setParams sample_host_setParams
        (no_params\<lparr>p_color := JArr [JStr (str ''#ffffff'')]\<rparr>) sample_MainButton_host))
      = JArr [JStr (str ''#ffffff'')]"
  by (simp add: setParams_cases spec_violations_def no_params_def bad_string_def bad_color_def
      bad_boolean_def spec_bad_color_def sample_host_setParams_def
      spec_hex_color_def spec_hex_digit_def str_def cu_def)

text \<open>
  C2, amended. \<^verbatim>\<open>setParams\<close> checks each defined field by its own rule, the rule of a
  colour being applied to the string the colour is converted to. When no field violates
  its rule, the result is that of the host's \<^verbatim>\<open>setParams\<close> on the same parameter object
  and the same host state; otherwise it raises an error of the kind of the first violation
  and returns the host state unchanged, the host's \<^verbatim>\<open>setParams\<close> not being called. When
  the colours are strings where they are defined, the violations are those of the
  specification, so that the claim holds as it was stated.
\<close>

theorem setParams_validates:
  "(violations params = [] \<longrightarrow>
      MainButton_setParams host_setParams params h = host_setParams params h)
   \<and> (violations params \<noteq> [] \<longrightarrow>
      (\<exists>e. MainButton_setParams host_setParams params h = (Some e, h)
           \<and> kind e = hd (violations params)))
   \<and> (string_colors params \<longrightarrow>
      violations params = spec_violations params
      \<and> (spec_violations params = [] \<longrightarrow>
           MainButton_setParams host_setParams params h = host_setParams params h)
      \<and> (spec_violations params \<noteq> [] \<longrightarrow>
           (\<exists>e. MainButton_setParams host_setParams params h = (Some e, h)
                \<and> kind e = hd (spec_violations params))))"
proof -
  have general: "(violations params = [] \<longrightarrow>
      MainButton_setParams host_setParams params h = host_setParams params h)
   \<and> (violations params \<noteq> [] \<longrightarrow>
      (\<exists>e. MainButton_setParams host_setParams params h = (Some e, h)
           \<and> kind e = hd (violations params)))"
    by (simp add: setParams_cases violations_def)
  show ?thesis
  proof (cases "string_colors params")
    case True
    then have "violations params = spec_violations params"
      by (rule string_colors_violations)
    with general True show ?thesis by simp
  next
    case False
    with general show ?thesis by simp
  qed
qed

theorem setParams_validates_witness:
  "(\<exists>e. MainButton_setParams sample_host_setParams
          (no_params\<lparr>p_text := JNum 123, p_color := JStr (str ''#ffffff'')\<rparr>)
          sample_MainButton_host = (Some e, sample_MainButton_host) \<and> kind e = TypeKind)
   \<and> MainButton_setParams sample_host_setParams
        (no_params\<lparr>p_color := JStr (str ''#ffffff''), p_is_active := JBool False\<rparr>)
        sample_MainButton_host
      = sample_host_setParams
          (no_params\<lparr>p_color := JStr (str ''#ffffff''), p_is_active := JBool False\<rparr>)
          sample_MainButton_host"
proof -
  have typed: "string_colors (no_params\<lparr>p_text := JNum 123, p_color := JStr (str ''#ffffff'')\<rparr>)"
    "string_colors (no_params\<lparr>p_color := JStr (str ''#ffffff''), p_is_active := JBool False\<rparr>)"
    by (simp_all add: string_colors_def no_params_def)
  have bad: "spec_violations (no_params\<lparr>p_text := JNum 123, p_color := JStr (str ''#ffffff'')\<rparr>)
      = [TypeKind]"
    by (simp add: spec_violations_def no_params_def bad_string_def spec_bad_color_def
        bad_boolean_def spec_hex_color_def spec_hex_digit_def str_def cu_def)
  have good: "spec_violations
      (no_params\<lparr>p_color := JStr (str ''#ffffff''), p_is_active := JBool False\<rparr>) = []"
    by (simp add: spec_violations_def no_params_def bad_string_def spec_bad_color_def
        bad_boolean_def spec_hex_color_def spec_hex_digit_def str_def cu_def)
  show ?thesis
    using setParams_validates [where host_setParams = sample_host_setParams
        and params = "no_params\<lparr>p_text := JNum 123, p_color := JStr (str ''#ffffff'')\<rparr>"
        and h = sample_MainButton_host]
      setParams_validates [where host_setParams = sample_host_setParams
        and params = "no_params\<lparr>p_color := JStr (str ''#ffffff''), p_is_active := JBool False\<rparr>"
        and h = sample_MainButton_host]
      typed bad good
    by simp
qed

text \<open>
  C10. The fields are checked in the order \<^verbatim>\<open>text\<close>, \<^verbatim>\<open>color\<close>, \<^verbatim>\<open>text_color\<close>,
  \<^verbatim>\<open>is_active\<close>, \<^verbatim>\<open>is_visible\<close>: the error raised is that of the first field in this
  order that violates its rule, whatever the later fields hold.
\<close>

theorem setParams_order:
  "(bad_string (p_text params) \<longrightarrow>
      MainButton_setParams host_setParams params h
        = (Some (TypeError ''LTelegram: text must be a string''), h))
   \<and> (\<not> bad_string (p_text params) \<and> bad_color (p_color params) \<longrightarrow>
      MainButton_setParams host_setParams params h
        = (Some (ValueError ''LTelegram: Invalid hex color value''), h))
   \<and> (\<not> bad_string (p_text params) \<and> \<not> bad_color (p_color params)
       \<and> bad_color (p_text_color params) \<longrightarrow>
      MainButton_setParams host_setParams params h
        = (Some (ValueError ''LTelegram: Invalid hex color value''), h))
   \<and> (\<not> bad_string (p_text params) \<and> \<not> bad_color (p_color params)
       \<and> \<not> bad_color (p_text_color params) \<and> bad_boolean (p_is_active params) \<longrightarrow>
      MainButton_setParams host_setParams params h
        = (Some (TypeError ''LTelegram: is_active must be a boolean''), h))
   \<and> (\<not> bad_string (p_text params) \<and> \<not> bad_color (p_color params)
       \<and> \<not> bad_color (p_text_color params) \<and> \<not> bad_boolean (p_is_active params)
       \<and> bad_boolean (p_is_visible params) \<longrightarrow>
      MainButton_setParams host_setParams params h
        = (Some (TypeError ''LTelegram: is_visible must be a boolean''), h))"
  by (simp add: setParams_cases)

theorem setParams_order_witness:
  "MainButton_setParams sample_host_setParams
     (no_params\<lparr>p_text := JNum 123, p_color := JStr (str ''red''), p_is_visible := JNull\<rparr>)
     sample_MainButton_host
     = (Some (TypeError ''LTelegram: text must be a string''), sample_MainButton_host)
   \<and> MainButton_setParams sample_host_setParams
     (no_params\<lparr>p_color := JStr (str ''red''), p_is_visible := JNull\<rparr>)
     sample_MainButton_host
     = (Some (ValueError ''LTelegram: Invalid hex color value''), sample_MainButton_host)
   \<and> MainButton_setParams sample_host_setParams
     (no_params\<lparr>p_is_visible := JNull\<rparr>)
     sample_MainButton_host
     = (Some (TypeError ''LTelegram: is_visible must be a boolean''), sample_MainButton_host)"
  using setParams_order [where host_setParams = sample_host_setParams and h = sample_MainButton_host
      and params = "no_params\<lparr>p_text := JNum 123, p_color := JStr (str ''red''), p_is_visible := JNull\<rparr>"]
    setParams_order [where host_setParams = sample_host_setParams and h = sample_MainButton_host
      and params = "no_params\<lparr>p_color := JStr (str ''red''), p_is_visible := JNull\<rparr>"]
    setParams_order [where host_setParams = sample_host_setParams and h = sample_MainButton_host
      and params = "no_params\<lparr>p_is_visible := JNull\<rparr>"]
  by (simp add: no_params_def bad_string_def bad_color_def bad_boolean_def
        spec_hex_color_def str_def cu_def)

section \<open>onceClick\<close>

lemma handleClick_returns:
  "handleClick k (Fn i True) st
     = (True, st\<lparr>calls := calls st @ [i],
                  handlers := remove1 (HandleClick k (Fn i True)) (handlers st)\<rparr>)"
  by (simp add: handleClick_def call_fn_def offClick_def host_offClick_def)

lemma handleClick_throws:
  "handleClick k (Fn i False) st = (False, st\<lparr>calls := calls st @ [i]\<rparr>)"
  by (simp add: handleClick_def call_fn_def)

text \<open>
  C4. The claim is right and the code misses it for a callback that throws. After
  \<^verbatim>\<open>onceClick\<close> on a button with nothing registered the closure is the only callback. A
  click calls it: the callback is called and throws, \<^verbatim>\<open>offClick\<close> is not reached, and the
  closure is still registered; the next click calls it, and the callback, again. With a
  callback that returns, the same click leaves nothing registered.
\<close>

theorem onceClick_throwing_callback:
  "handlers (onceClick (Fn 7 False) sample_click_state) = [HandleClick 0 (Fn 7 False)]
   \<and> invoke (HandleClick 0 (Fn 7 False)) (onceClick (Fn 7 False) sample_click_state)
      = (False, \<lparr>handlers = [HandleClick 0 (Fn 7 False)], calls = [7], closures = 1\<rparr>)
   \<and> invoke (HandleClick 0 (Fn 7 False))
        \<lparr>handlers = [HandleClick 0 (Fn 7 False)], calls = [7], closures = 1\<rparr>
      = (False, \<lparr>handlers = [HandleClick 0 (Fn 7 False)], calls = [7, 7], closures = 1\<rparr>)
   \<and> invoke (HandleClick 0 (Fn 7 True)) (onceClick (Fn 7 True) sample_click_state)
      = (True, \<lparr>handlers = [], calls = [7], closures = 1\<rparr>)"
  by (simp add: handleClick_returns handleClick_throws onceClick_def onClick_def
      host_onClick_def sample_click_state_def)

end
